theory Spec2Isabelle
  imports Complex_Main "HOL-Library.Word" "HOL-Library.Signed_Division"
begin

section \<open>Machine-level types\<close>

text \<open>
  A C++ \<^verbatim>\<open>int\<close> is a 32-bit two's complement value: \<open>+\<close> and \<open>-\<close> wrap around,
  \<open>sint\<close> reads the signed value, and every comparison of the source is a comparison of
  signed values. (Signed overflow is undefined in C++; the model wraps, as the hardware does.)

  A \<^verbatim>\<open>double\<close> is idealised as a real number: rounding, infinities and NaN are not
  modelled, so every statement about \<open>cumulative_pv\<close>, VWAP and the deviation is a statement
  up to floating-point rounding.

  \<^verbatim>\<open>Utilities::TimeType\<close> is a \<^verbatim>\<open>boost::posix_time\<close> time point and
  \<^verbatim>\<open>time_duration\<close> a difference of two of them: both are tick counts
  (microseconds in the default configuration of the library).
\<close>

type_synonym c_int = "32 word"
type_synonym c_double = real
type_synonym TimeType = int
type_synonym time_duration = int

definition to_double :: "c_int \<Rightarrow> c_double" where
  "to_double n = real_of_int (sint n)"

definition abs_int :: "c_int \<Rightarrow> c_int" where
  "abs_int n = (if sint n < 0 then - n else n)"

definition ticks_per_second :: int where
  "ticks_per_second = 1000000"

text \<open>\<^verbatim>\<open>boost::posix_time::seconds(n)\<close>\<close>

definition seconds :: "c_int \<Rightarrow> time_duration" where
  "seconds n = sint n * ticks_per_second"

text \<open>\<^verbatim>\<open>time_duration::total_seconds()\<close>: ticks divided by ticks per second, an integer
  division of C++, which truncates towards zero.\<close>

definition total_seconds :: "time_duration \<Rightarrow> int" where
  "total_seconds d = d sdiv ticks_per_second"

text \<open>
  What the source can do beyond returning a value. \<open>EmptyDequeAccess\<close> is
  \<^verbatim>\<open>front()\<close> or \<^verbatim>\<open>back()\<close> of an empty \<^verbatim>\<open>std::deque\<close> (undefined behaviour).
  \<open>DivisionByZero\<close> marks a floating-point division whose divisor is zero: the degenerate
  state that the guards of \<open>GetVWAP\<close> and \<open>CalculateDeviation\<close> are there to exclude.
\<close>

datatype fault = EmptyDequeAccess | DivisionByZero

definition divide_double :: "c_double \<Rightarrow> c_double \<Rightarrow> fault + c_double" where
  "divide_double a b = (if b = 0 then Inl DivisionByZero else Inr (a / b))"

definition deque_front :: "'a list \<Rightarrow> fault + 'a" where
  "deque_front q = (case q of [] \<Rightarrow> Inl EmptyDequeAccess | x # _ \<Rightarrow> Inr x)"

definition deque_back :: "'a list \<Rightarrow> fault + 'a" where
  "deque_back q = (if q = [] then Inl EmptyDequeAccess else Inr (last q))"

section \<open>Data model (VWAP.h)\<close>

record VWAPTradeRecord =
  timestamp :: TimeType
  price :: c_double
  volume :: c_int

text \<open>The data members of \<^verbatim>\<open>class VWAPStrategy\<close>; the deque is a list, oldest record
  first.\<close>

record VWAPStrategy =
  vwap_window :: "VWAPTradeRecord list"
  cumulative_pv :: c_double
  cumulative_volume :: c_int
  vwap_window_seconds :: c_int
  entry_threshold_bps :: c_double
  max_inventory :: c_int
  position_size :: c_int
  debug :: bool

text \<open>The constructor.\<close>

definition VWAPStrategy_new :: VWAPStrategy where
  "VWAPStrategy_new =
     \<lparr>vwap_window = [], cumulative_pv = 0, cumulative_volume = 0,
      vwap_window_seconds = 300, entry_threshold_bps = 1 / 10,
      max_inventory = 5, position_size = 1, debug = True\<rparr>"

section \<open>Rolling VWAP window\<close>

text \<open>Log lines and the writes to \<^verbatim>\<open>std::cout\<close> change no state and are left out
  throughout.\<close>

definition OnResetStrategyState :: "VWAPStrategy \<Rightarrow> VWAPStrategy" where
  "OnResetStrategyState s =
     s\<lparr>vwap_window := [], cumulative_pv := 0, cumulative_volume := 0\<rparr>"

definition AddTradeToWindow ::
  "c_double \<Rightarrow> c_int \<Rightarrow> TimeType \<Rightarrow> VWAPStrategy \<Rightarrow> VWAPStrategy" where
  "AddTradeToWindow p v t s =
     s\<lparr>vwap_window := vwap_window s @ [\<lparr>timestamp = t, price = p, volume = v\<rparr>],
       cumulative_pv := cumulative_pv s + p * to_double v,
       cumulative_volume := cumulative_volume s + v\<rparr>"

text \<open>The \<^verbatim>\<open>while\<close> loop of \<^verbatim>\<open>PruneOldTrades\<close>: one iteration per recursive call.\<close>

function PruneOldTrades :: "TimeType \<Rightarrow> VWAPStrategy \<Rightarrow> VWAPStrategy" where
  "PruneOldTrades cutoff_time s =
     (if vwap_window s \<noteq> [] \<and> timestamp (hd (vwap_window s)) < cutoff_time
      then PruneOldTrades cutoff_time
             (s\<lparr>cumulative_pv :=
                   cumulative_pv s
                     - price (hd (vwap_window s)) * to_double (volume (hd (vwap_window s))),
                 cumulative_volume := cumulative_volume s - volume (hd (vwap_window s)),
                 vwap_window := tl (vwap_window s)\<rparr>)
      else s)"
  by pat_completeness auto
termination
  by (relation "measure (\<lambda>(c, s). length (vwap_window s))") auto

declare PruneOldTrades.simps [simp del]

definition GetVWAP :: "VWAPStrategy \<Rightarrow> fault + c_double" where
  "GetVWAP s =
     (if cumulative_volume s = 0 then Inr 0
      else divide_double (cumulative_pv s) (to_double (cumulative_volume s)))"

definition MIN_TRADE_REQUIRED :: nat where
  "MIN_TRADE_REQUIRED = 3"

definition IsVWAPReady :: "VWAPStrategy \<Rightarrow> fault + bool" where
  "IsVWAPReady s =
     (if length (vwap_window s) \<ge> MIN_TRADE_REQUIRED then Inr True
      else case deque_back (vwap_window s) of
        Inl f \<Rightarrow> Inl f
      | Inr b \<Rightarrow>
          (case deque_front (vwap_window s) of
             Inl f \<Rightarrow> Inl f
           | Inr a \<Rightarrow>
               Inr (total_seconds (timestamp b - timestamp a)
                      \<ge> sint (vwap_window_seconds s))))"

definition CalculateDeviation :: "c_double \<Rightarrow> c_double \<Rightarrow> fault + c_double" where
  "CalculateDeviation mid_price vwap =
     (if vwap = 0 then Inr 0
      else case divide_double (mid_price - vwap) vwap of
        Inl f \<Rightarrow> Inl f
      | Inr q \<Rightarrow> Inr (q * 10000))"

section \<open>The accumulators and the window\<close>

definition window_volume :: "VWAPTradeRecord list \<Rightarrow> c_int" where
  "window_volume w = sum_list (map volume w)"

definition window_pv :: "VWAPTradeRecord list \<Rightarrow> c_double" where
  "window_pv w = sum_list (map (\<lambda>r. price r * to_double (volume r)) w)"

definition accumulators_consistent :: "VWAPStrategy \<Rightarrow> bool" where
  "accumulators_consistent s \<longleftrightarrow>
     cumulative_volume s = window_volume (vwap_window s) \<and>
     cumulative_pv s = window_pv (vwap_window s)"

datatype window_op =
  Add c_double c_int TimeType
| Prune TimeType
| Reset

fun apply_window_op :: "VWAPStrategy \<Rightarrow> window_op \<Rightarrow> VWAPStrategy" where
  "apply_window_op s (Add p v t) = AddTradeToWindow p v t s"
| "apply_window_op s (Prune c) = PruneOldTrades c s"
| "apply_window_op s Reset = OnResetStrategyState s"

definition run_window_ops :: "VWAPStrategy \<Rightarrow> window_op list \<Rightarrow> VWAPStrategy" where
  "run_window_ops s ops = foldl apply_window_op s ops"

section \<open>Host framework: quotes, instruments, orders\<close>

text \<open>
  The types of the Strategy Studio framework are declared outside this repository; they are
  modelled by the members the strategy reads. \<open>quote_IsValid\<close>, \<open>bid_side_IsValid\<close> and
  \<open>ask_side_IsValid\<close> are the results of \<^verbatim>\<open>top_quote().IsValid()\<close>,
  \<^verbatim>\<open>top_quote().bid_side().IsValid()\<close> and \<^verbatim>\<open>top_quote().ask_side().IsValid()\<close>.
\<close>

record Quote =
  bid :: c_double
  ask :: c_double
  quote_IsValid :: bool
  bid_side_IsValid :: bool
  ask_side_IsValid :: bool

datatype InstrumentType = INSTRUMENT_TYPE_EQUITY | INSTRUMENT_TYPE_FUTURE

record Instrument =
  symbol :: string
  instrument_type :: InstrumentType
  top_quote :: Quote

datatype OrderSide = ORDER_SIDE_BUY | ORDER_SIDE_SELL

datatype MarketCenterID = MARKET_CENTER_ID_NASDAQ | MARKET_CENTER_ID_CME_GLOBEX

datatype OrderTIF = ORDER_TIF_DAY | ORDER_TIF_IOC

datatype OrderType = ORDER_TYPE_MARKET | ORDER_TYPE_LIMIT

text \<open>Modelled from the spec: \<^verbatim>\<open>IsBuySide\<close> and \<^verbatim>\<open>IsSellSide\<close> are framework
  predicates that are not in the repository; the working order "is a buy" or "is a sell".\<close>

definition IsBuySide :: "OrderSide \<Rightarrow> bool" where
  "IsBuySide side = (side = ORDER_SIDE_BUY)"

definition IsSellSide :: "OrderSide \<Rightarrow> bool" where
  "IsSellSide side = (side = ORDER_SIDE_SELL)"

record Order =
  order_id :: nat
  order_side :: OrderSide

text \<open>The arguments of the \<^verbatim>\<open>OrderParams\<close> constructor, in its order.\<close>

record OrderParams =
  params_instrument :: Instrument
  params_quantity :: c_int
  params_price :: c_double
  params_market_center :: MarketCenterID
  params_side :: OrderSide
  params_tif :: OrderTIF
  params_type :: OrderType

text \<open>The calls on \<^verbatim>\<open>trade_actions()\<close>, in the order they are made.\<close>

datatype TradeAction =
  SendNewOrder OrderParams
| SendCancelOrder nat
| SendCancelAll Instrument

text \<open>
  What the strategy reads from the host while it handles one trade event of an instrument:
  \<^verbatim>\<open>portfolio().position(instrument)\<close> and the working orders of the instrument, first
  one first. An entry \<open>None\<close> is a null \<^verbatim>\<open>Order*\<close>.
\<close>

record Host =
  position :: c_int
  working_orders :: "Order option list"

definition num_working_orders :: "Host \<Rightarrow> nat" where
  "num_working_orders h = length (working_orders h)"

record TradeDataEventMsg =
  trade_price :: c_double
  trade_size :: c_int
  event_time :: TimeType
  instrument :: Instrument

section \<open>Order sizing and adjustment\<close>

definition SendOrder :: "Instrument \<Rightarrow> c_int \<Rightarrow> TradeAction list" where
  "SendOrder instr trade_sz =
     (if \<not> ask_side_IsValid (top_quote instr) \<or> \<not> bid_side_IsValid (top_quote instr)
      then []
      else
        let price_ind = (if 0 < sint trade_sz then ask (top_quote instr)
                         else bid (top_quote instr))
        in [SendNewOrder
              \<lparr>params_instrument = instr,
               params_quantity = abs_int trade_sz,
               params_price = price_ind,
               params_market_center =
                 (if instrument_type instr = INSTRUMENT_TYPE_EQUITY
                  then MARKET_CENTER_ID_NASDAQ else MARKET_CENTER_ID_CME_GLOBEX),
               params_side = (if 0 < sint trade_sz then ORDER_SIDE_BUY else ORDER_SIDE_SELL),
               params_tif = ORDER_TIF_DAY,
               params_type = ORDER_TYPE_MARKET\<rparr>])"

definition AdjustPortfolio :: "Host \<Rightarrow> Instrument \<Rightarrow> c_int \<Rightarrow> TradeAction list" where
  "AdjustPortfolio h instr desired_position =
     (let current_position = position h;
          trade_sz = desired_position - current_position
      in if trade_sz \<noteq> 0 then
           (if num_working_orders h = 0 then SendOrder instr trade_sz
            else case hd (working_orders h) of
              None \<Rightarrow> []
            | Some ord \<Rightarrow>
                if (IsBuySide (order_side ord) \<and> sint trade_sz < 0) \<or>
                   (IsSellSide (order_side ord) \<and> 0 < sint trade_sz)
                then [SendCancelOrder (order_id ord)]
                else [])
         else
           (if num_working_orders h > 0 then [SendCancelAll instr] else []))"

section \<open>The trade event\<close>

definition CalculateMidPrice :: "Instrument \<Rightarrow> c_double" where
  "CalculateMidPrice instr = (bid (top_quote instr) + ask (top_quote instr)) / 2"

text \<open>Step 5 of \<^verbatim>\<open>OnTrade\<close>: \<^verbatim>\<open>desired_position\<close> starts at 0 and is assigned in
  the two entry branches only.\<close>

definition DesiredPosition :: "VWAPStrategy \<Rightarrow> c_int \<Rightarrow> c_double \<Rightarrow> c_int" where
  "DesiredPosition s current_position deviation_bps =
     (if 0 < sint current_position \<and> deviation_bps \<ge> 0 then 0
      else if sint current_position < 0 \<and> deviation_bps \<le> 0 then 0
      else if sint (abs_int current_position) < sint (max_inventory s) then
        (if deviation_bps < - entry_threshold_bps s
           then current_position + position_size s
         else if deviation_bps > entry_threshold_bps s
           then current_position - position_size s
         else 0)
      else 0)"

definition OnTrade ::
  "TradeDataEventMsg \<Rightarrow> Host \<Rightarrow> VWAPStrategy \<Rightarrow> fault + (VWAPStrategy \<times> TradeAction list)"
  where
  "OnTrade msg h s =
     (let s1 = AddTradeToWindow (trade_price msg) (trade_size msg) (event_time msg) s;
          window_duration = seconds (vwap_window_seconds s1);
          cutoff_time = event_time msg - window_duration;
          s2 = PruneOldTrades cutoff_time s1
      in case IsVWAPReady s2 of
           Inl f \<Rightarrow> Inl f
         | Inr ready \<Rightarrow>
             (if \<not> ready then Inr (s2, [])
              else (case GetVWAP s2 of
                Inl f \<Rightarrow> Inl f
              | Inr vwap \<Rightarrow>
                  (let instr = instrument msg
                   in if \<not> quote_IsValid (top_quote instr) then Inr (s2, [])
                      else (case CalculateDeviation (CalculateMidPrice instr) vwap of
                        Inl f \<Rightarrow> Inl f
                      | Inr deviation_bps \<Rightarrow>
                          Inr (s2, AdjustPortfolio h instr
                                     (DesiredPosition s2 (position h) deviation_bps)))))))"

section \<open>Parameter updates\<close>

text \<open>
  Modelled from the spec: \<^verbatim>\<open>StrategyParam\<close> and its \<^verbatim>\<open>Get\<close> belong to the host
  framework and are not in the repository. A parameter is modelled by its name and by what
  \<^verbatim>\<open>Get\<close> does for each of the three target types: \<open>Some v\<close> when the value coerces
  to the type (\<^verbatim>\<open>Get\<close> stores \<open>v\<close> in the target and returns true), \<open>None\<close> when it
  does not (\<^verbatim>\<open>Get\<close> returns false and stores nothing).
\<close>

record StrategyParam =
  param_name :: string
  Get_int :: "c_int option"
  Get_double :: "c_double option"
  Get_bool :: "bool option"

datatype exception = StrategyStudioException string

text \<open>The result is the exception thrown, if any, and the data members as the call leaves
  them.\<close>

definition OnParamChanged ::
  "StrategyParam \<Rightarrow> VWAPStrategy \<Rightarrow> exception option \<times> VWAPStrategy" where
  "OnParamChanged param s =
     (if param_name param = ''vwap_window_seconds'' then
        (case Get_int param of
           None \<Rightarrow> (Some (StrategyStudioException ''Could not get vwap_window_seconds''), s)
         | Some v \<Rightarrow> (None, s\<lparr>vwap_window_seconds := v\<rparr>))
      else if param_name param = ''entry_threshold_bps'' then
        (case Get_double param of
           None \<Rightarrow> (Some (StrategyStudioException ''Could not get entry_threshold_bps''), s)
         | Some v \<Rightarrow> (None, s\<lparr>entry_threshold_bps := v\<rparr>))
      else if param_name param = ''max_inventory'' then
        (case Get_int param of
           None \<Rightarrow> (Some (StrategyStudioException ''Could not get max_inventory''), s)
         | Some v \<Rightarrow> (None, s\<lparr>max_inventory := v\<rparr>))
      else if param_name param = ''position_size'' then
        (case Get_int param of
           None \<Rightarrow> (Some (StrategyStudioException ''Could not get position_size''), s)
         | Some v \<Rightarrow> (None, s\<lparr>position_size := v\<rparr>))
      else if param_name param = ''debug'' then
        (case Get_bool param of
           None \<Rightarrow> (Some (StrategyStudioException ''Could not get debug''), s)
         | Some v \<Rightarrow> (None, s\<lparr>debug := v\<rparr>))
      else (None, s))"

section \<open>Readiness as the specification words it\<close>

definition window_span :: "VWAPTradeRecord list \<Rightarrow> time_duration" where
  "window_span w = timestamp (last w) - timestamp (hd w)"

definition ready_by_rule :: "VWAPStrategy \<Rightarrow> bool" where
  "ready_by_rule s \<longleftrightarrow>
     length (vwap_window s) \<ge> 3 \<or>
     window_span (vwap_window s) \<ge> seconds (vwap_window_seconds s)"

section \<open>Proofs: the accumulators and the window\<close>

lemma consistent_new: "accumulators_consistent VWAPStrategy_new"
  by (simp add: accumulators_consistent_def VWAPStrategy_new_def window_volume_def
      window_pv_def)

lemma consistent_reset: "accumulators_consistent (OnResetStrategyState s)"
  by (simp add: accumulators_consistent_def OnResetStrategyState_def window_volume_def
      window_pv_def)

lemma consistent_add:
  "accumulators_consistent s \<Longrightarrow> accumulators_consistent (AddTradeToWindow p v t s)"
  by (simp add: accumulators_consistent_def AddTradeToWindow_def window_volume_def
      window_pv_def)

lemma consistent_prune:
  "accumulators_consistent s \<Longrightarrow> accumulators_consistent (PruneOldTrades c s)"
proof (induction c s rule: PruneOldTrades.induct)
  case (1 c s)
  show ?case
  proof (cases "vwap_window s \<noteq> [] \<and> timestamp (hd (vwap_window s)) < c")
    case True
    then obtain r rs where w: "vwap_window s = r # rs"
      by (cases "vwap_window s") auto
    let ?s' = "s\<lparr>cumulative_pv := cumulative_pv s - price r * to_double (volume r),
                 cumulative_volume := cumulative_volume s - volume r,
                 vwap_window := rs\<rparr>"
    from "1.prems" w have "accumulators_consistent ?s'"
      by (simp add: accumulators_consistent_def window_volume_def window_pv_def)
    with "1.IH" True w have "accumulators_consistent (PruneOldTrades c ?s')"
      by simp
    with True w show ?thesis
      by (subst PruneOldTrades.simps) simp
  next
    case False
    with "1.prems" show ?thesis
      by (subst PruneOldTrades.simps) auto
  qed
qed

lemma consistent_apply:
  "accumulators_consistent s \<Longrightarrow> accumulators_consistent (apply_window_op s x)"
  by (cases x) (simp_all add: consistent_add consistent_prune consistent_reset)

lemma consistent_foldl:
  "accumulators_consistent s \<Longrightarrow> accumulators_consistent (foldl apply_window_op s ops)"
  by (induction ops arbitrary: s) (simp_all add: consistent_apply)

text \<open>
  C3. After every sequence of \<open>AddTradeToWindow\<close>, \<open>PruneOldTrades\<close> and
  \<open>OnResetStrategyState\<close>, run from the freshly constructed strategy or from any state that
  was just reset, \<open>cumulative_volume\<close> is the sum of the volumes of the records in the window
  (in the 32-bit arithmetic of the field) and \<open>cumulative_pv\<close> is the sum of their
  price times volume (over the reals, that is up to rounding).
\<close>

theorem accumulators_track_window:
  "accumulators_consistent (run_window_ops VWAPStrategy_new ops) \<and>
   accumulators_consistent (run_window_ops (OnResetStrategyState s) ops)"
  unfolding run_window_ops_def
  by (simp add: consistent_foldl consistent_new consistent_reset)

section \<open>Proofs: pruning\<close>

lemma prune_step:
  "vwap_window s \<noteq> [] \<Longrightarrow> timestamp (hd (vwap_window s)) < c \<Longrightarrow>
   PruneOldTrades c s =
     PruneOldTrades c
       (s\<lparr>cumulative_pv :=
            cumulative_pv s
              - price (hd (vwap_window s)) * to_double (volume (hd (vwap_window s))),
          cumulative_volume := cumulative_volume s - volume (hd (vwap_window s)),
          vwap_window := tl (vwap_window s)\<rparr>)"
  by (subst PruneOldTrades.simps) simp

lemma prune_stop:
  "vwap_window s = [] \<or> \<not> timestamp (hd (vwap_window s)) < c \<Longrightarrow> PruneOldTrades c s = s"
  by (subst PruneOldTrades.simps) auto

lemma prune_front_not_old:
  "vwap_window (PruneOldTrades c s) = [] \<or>
   \<not> timestamp (hd (vwap_window (PruneOldTrades c s))) < c"
proof (induction c s rule: PruneOldTrades.induct)
  case (1 c s)
  show ?case
  proof (cases "vwap_window s \<noteq> [] \<and> timestamp (hd (vwap_window s)) < c")
    case True
    with "1.IH" show ?thesis
      by (simp add: prune_step [of s c])
  next
    case False
    then show ?thesis
      by (simp add: prune_stop [of s c])
  qed
qed

text \<open>
  C8. Pruning twice with the same cutoff: the second call returns the state the first call
  left, window and both accumulators included.
\<close>

theorem prune_idempotent:
  "PruneOldTrades c (PruneOldTrades c s) = PruneOldTrades c s"
  by (rule prune_stop) (rule prune_front_not_old)

text \<open>A record at the back whose timestamp is not before the cutoff stops the loop at the
  latest when it reaches the front.\<close>

lemma prune_keeps_back:
  "vwap_window s \<noteq> [] \<Longrightarrow> c \<le> timestamp (last (vwap_window s)) \<Longrightarrow>
   vwap_window (PruneOldTrades c s) \<noteq> [] \<and>
   last (vwap_window (PruneOldTrades c s)) = last (vwap_window s)"
proof (induction c s rule: PruneOldTrades.induct)
  case (1 c s)
  show ?case
  proof (cases "vwap_window s \<noteq> [] \<and> timestamp (hd (vwap_window s)) < c")
    case True
    with "1.prems" have ne: "hd (vwap_window s) \<noteq> last (vwap_window s)"
      by auto
    with True have tl_ne: "tl (vwap_window s) \<noteq> []"
      by (cases "vwap_window s") auto
    then have last_tl: "last (tl (vwap_window s)) = last (vwap_window s)"
      by (simp add: last_tl)
    from "1.IH" True tl_ne last_tl "1.prems" show ?thesis
      by (simp add: prune_step [of s c])
  next
    case False
    with "1.prems" show ?thesis
      by (simp add: prune_stop [of s c])
  qed
qed

lemma add_then_prune_nonempty:
  assumes "0 \<le> sint (vwap_window_seconds s)"
  shows "vwap_window (PruneOldTrades (t - seconds (vwap_window_seconds s))
                        (AddTradeToWindow p v t s)) \<noteq> [] \<and>
         last (vwap_window (PruneOldTrades (t - seconds (vwap_window_seconds s))
                              (AddTradeToWindow p v t s)))
           = \<lparr>timestamp = t, price = p, volume = v\<rparr>"
proof -
  from assms have "t - seconds (vwap_window_seconds s) \<le> t"
    by (simp add: seconds_def ticks_per_second_def)
  then show ?thesis
    using prune_keeps_back [of "AddTradeToWindow p v t s" "t - seconds (vwap_window_seconds s)"]
    by (simp add: AddTradeToWindow_def)
qed

section \<open>Proofs: VWAP, deviation and readiness\<close>

lemma to_double_eq_0 [simp]: "to_double n = 0 \<longleftrightarrow> n = 0"
  by (simp add: to_double_def signed_eq_0_iff)

text \<open>
  C7. \<open>GetVWAP\<close> returns 0 when \<open>cumulative_volume\<close> is 0 and \<open>cumulative_pv\<close> divided by
  \<open>cumulative_volume\<close> otherwise; \<open>CalculateDeviation\<close> returns 0 when the VWAP is 0 and
  \<open>((mid_price - vwap) / vwap) * 10000\<close> otherwise. Both always return a value: no division
  is ever made by zero.
\<close>

theorem neutral_values:
  "GetVWAP s =
     Inr (if cumulative_volume s = 0 then 0
          else cumulative_pv s / to_double (cumulative_volume s)) \<and>
   CalculateDeviation mid_price vwap =
     Inr (if vwap = 0 then 0 else ((mid_price - vwap) / vwap) * 10000)"
  by (simp add: GetVWAP_def CalculateDeviation_def divide_double_def)

lemma GetVWAP_Inr: "\<exists>x. GetVWAP s = Inr x"
  by (simp add: GetVWAP_def divide_double_def)

lemma CalculateDeviation_Inr: "\<exists>x. CalculateDeviation m w = Inr x"
  by (simp add: CalculateDeviation_def divide_double_def)

text \<open>For a span that is not negative, truncation towards zero is rounding down, and whole
  seconds compare with \<open>n\<close> as the ticks compare with \<open>n\<close> seconds.\<close>

lemma total_seconds_nonneg:
  "0 \<le> d \<Longrightarrow> n \<le> total_seconds d \<longleftrightarrow> n * ticks_per_second \<le> d"
  unfolding total_seconds_def ticks_per_second_def signed_divide_int_def
  by (cases "d = 0") (auto simp: sgn_if)

lemma ready_nonempty:
  "vwap_window s \<noteq> [] \<Longrightarrow>
   IsVWAPReady s =
     Inr (length (vwap_window s) \<ge> 3 \<or>
          sint (vwap_window_seconds s) \<le> total_seconds (window_span (vwap_window s)))"
  by (cases "vwap_window s")
    (simp_all add: IsVWAPReady_def MIN_TRADE_REQUIRED_def deque_back_def deque_front_def
      window_span_def)

lemma ready_Inr: "vwap_window s \<noteq> [] \<Longrightarrow> \<exists>b. IsVWAPReady s = Inr b"
  by (simp add: ready_nonempty)

lemma total_seconds_neg: "d < 0 \<Longrightarrow> total_seconds d \<le> 0"
  unfolding total_seconds_def ticks_per_second_def signed_divide_int_def
  by (simp add: sgn_if pos_imp_zdiv_nonneg_iff)

lemma ready_rule_positive_window:
  assumes "vwap_window s \<noteq> []" and "0 < sint (vwap_window_seconds s)"
  shows "IsVWAPReady s = Inr (ready_by_rule s)"
proof (cases "0 \<le> window_span (vwap_window s)")
  case True
  with assms show ?thesis
    by (simp add: ready_nonempty ready_by_rule_def total_seconds_nonneg seconds_def)
next
  case False
  then have neg: "window_span (vwap_window s) < 0"
    by simp
  from assms(2) have "0 < seconds (vwap_window_seconds s)"
    by (simp add: seconds_def ticks_per_second_def)
  with neg have "\<not> seconds (vwap_window_seconds s) \<le> window_span (vwap_window s)"
    by simp
  moreover from total_seconds_neg [OF neg] assms(2)
  have "\<not> sint (vwap_window_seconds s) \<le> total_seconds (window_span (vwap_window s))"
    by simp
  ultimately show ?thesis
    using assms(1) by (simp add: ready_nonempty ready_by_rule_def)
qed

text \<open>
  C4. For a non-empty window whose oldest record (the front) is not later than its newest
  (the back), and for every non-empty window when \<open>vwap_window_seconds\<close> is positive,
  \<open>IsVWAPReady\<close> returns true exactly when the window holds at least 3 records or the
  span from the oldest to the newest record is at least \<open>vwap_window_seconds\<close> seconds.
  With exactly 3 records it returns true whatever their timestamps; with 2 records spanning
  less than \<open>vwap_window_seconds\<close> seconds it returns false.
\<close>

theorem readiness_rule:
  "(vwap_window s \<noteq> [] \<and>
      timestamp (hd (vwap_window s)) \<le> timestamp (last (vwap_window s)) \<longrightarrow>
    IsVWAPReady s = Inr (ready_by_rule s)) \<and>
   (vwap_window s \<noteq> [] \<and> 0 < sint (vwap_window_seconds s) \<longrightarrow>
    IsVWAPReady s = Inr (ready_by_rule s)) \<and>
   (length (vwap_window s) = 3 \<longrightarrow> IsVWAPReady s = Inr True) \<and>
   (length (vwap_window s) = 2 \<and> 0 \<le> window_span (vwap_window s) \<and>
      window_span (vwap_window s) < seconds (vwap_window_seconds s) \<longrightarrow>
    IsVWAPReady s = Inr False)"
proof (intro conjI impI)
  assume a: "vwap_window s \<noteq> [] \<and>
    timestamp (hd (vwap_window s)) \<le> timestamp (last (vwap_window s))"
  then have "0 \<le> window_span (vwap_window s)"
    by (simp add: window_span_def)
  with a show "IsVWAPReady s = Inr (ready_by_rule s)"
    by (simp add: ready_nonempty ready_by_rule_def total_seconds_nonneg seconds_def)
next
  assume "vwap_window s \<noteq> [] \<and> 0 < sint (vwap_window_seconds s)"
  then show "IsVWAPReady s = Inr (ready_by_rule s)"
    by (simp add: ready_rule_positive_window)
next
  assume "length (vwap_window s) = 3"
  then show "IsVWAPReady s = Inr True"
    by (simp add: IsVWAPReady_def MIN_TRADE_REQUIRED_def)
next
  assume a: "length (vwap_window s) = 2 \<and> 0 \<le> window_span (vwap_window s) \<and>
    window_span (vwap_window s) < seconds (vwap_window_seconds s)"
  then have "vwap_window s \<noteq> []"
    by auto
  with a show "IsVWAPReady s = Inr False"
    by (simp add: ready_nonempty total_seconds_nonneg seconds_def)
qed

text \<open>Under the default window of 300 s: two trades exactly 300 s apart, three trades
  within 2 microseconds, two trades one microsecond short of 300 s, and two trades whose
  timestamps run backwards.\<close>

theorem readiness_rule_witness:
  "IsVWAPReady
     (VWAPStrategy_new\<lparr>vwap_window :=
        [\<lparr>timestamp = 0, price = 100, volume = 1\<rparr>,
         \<lparr>timestamp = 300000000, price = 101, volume = 2\<rparr>]\<rparr>) = Inr True \<and>
   IsVWAPReady
     (VWAPStrategy_new\<lparr>vwap_window :=
        [\<lparr>timestamp = 0, price = 100, volume = 1\<rparr>,
         \<lparr>timestamp = 1, price = 101, volume = 2\<rparr>,
         \<lparr>timestamp = 2, price = 99, volume = 1\<rparr>]\<rparr>) = Inr True \<and>
   IsVWAPReady
     (VWAPStrategy_new\<lparr>vwap_window :=
        [\<lparr>timestamp = 0, price = 100, volume = 1\<rparr>,
         \<lparr>timestamp = 299999999, price = 101, volume = 2\<rparr>]\<rparr>) = Inr False \<and>
   IsVWAPReady
     (VWAPStrategy_new\<lparr>vwap_window :=
        [\<lparr>timestamp = 5000000, price = 100, volume = 1\<rparr>,
         \<lparr>timestamp = 0, price = 101, volume = 2\<rparr>]\<rparr>) = Inr False"
  using
    readiness_rule [of "VWAPStrategy_new\<lparr>vwap_window :=
        [\<lparr>timestamp = 0, price = 100, volume = 1\<rparr>,
         \<lparr>timestamp = 300000000, price = 101, volume = 2\<rparr>]\<rparr>"]
    readiness_rule [of "VWAPStrategy_new\<lparr>vwap_window :=
        [\<lparr>timestamp = 0, price = 100, volume = 1\<rparr>,
         \<lparr>timestamp = 1, price = 101, volume = 2\<rparr>,
         \<lparr>timestamp = 2, price = 99, volume = 1\<rparr>]\<rparr>"]
    readiness_rule [of "VWAPStrategy_new\<lparr>vwap_window :=
        [\<lparr>timestamp = 0, price = 100, volume = 1\<rparr>,
         \<lparr>timestamp = 299999999, price = 101, volume = 2\<rparr>]\<rparr>"]
    readiness_rule [of "VWAPStrategy_new\<lparr>vwap_window :=
        [\<lparr>timestamp = 5000000, price = 100, volume = 1\<rparr>,
         \<lparr>timestamp = 0, price = 101, volume = 2\<rparr>]\<rparr>"]
  by (simp add: ready_by_rule_def window_span_def seconds_def ticks_per_second_def
      VWAPStrategy_new_def)

text \<open>
  C2. On an empty window (after a reset, or in the freshly constructed strategy)
  \<open>GetVWAP\<close> returns 0, but \<open>IsVWAPReady\<close> does not return false: the size test fails
  and the function goes on to read the back of the empty deque.
\<close>

theorem ready_on_empty_window_faults:
  "IsVWAPReady (OnResetStrategyState s) = Inl EmptyDequeAccess \<and>
   IsVWAPReady VWAPStrategy_new = Inl EmptyDequeAccess \<and>
   GetVWAP (OnResetStrategyState s) = Inr 0 \<and>
   GetVWAP VWAPStrategy_new = Inr 0"
  by (simp add: IsVWAPReady_def MIN_TRADE_REQUIRED_def deque_back_def GetVWAP_def
      OnResetStrategyState_def VWAPStrategy_new_def)

section \<open>Proofs: the trade event\<close>

text \<open>
  C10. When \<open>vwap_window_seconds\<close> is not negative, the cutoff of \<open>OnTrade\<close> is not after
  the event time, so pruning leaves the record just added at the back of the window: the
  window is not empty when \<open>IsVWAPReady\<close> reads its front and back, \<open>IsVWAPReady\<close>
  returns a value, and so does \<open>OnTrade\<close>.
\<close>

theorem just_added_trade_survives:
  assumes "0 \<le> sint (vwap_window_seconds s)"
  shows "(let s2 = PruneOldTrades (t - seconds (vwap_window_seconds s))
                     (AddTradeToWindow p v t s)
          in vwap_window s2 \<noteq> [] \<and>
             last (vwap_window s2) = \<lparr>timestamp = t, price = p, volume = v\<rparr> \<and>
             (\<exists>ready. IsVWAPReady s2 = Inr ready)) \<and>
         (\<exists>r. OnTrade msg h s = Inr r)"
proof -
  let ?s2 = "\<lambda>p v t. PruneOldTrades (t - seconds (vwap_window_seconds s))
                        (AddTradeToWindow p v t s)"
  have ne: "vwap_window (?s2 p v t) \<noteq> []" for p v t
    using add_then_prune_nonempty [OF assms] by simp
  have seconds_add: "vwap_window_seconds (AddTradeToWindow p v t s) = vwap_window_seconds s"
    for p v t
    by (simp add: AddTradeToWindow_def)
  obtain b where b: "IsVWAPReady (?s2 (trade_price msg) (trade_size msg) (event_time msg)) = Inr b"
    using ready_Inr [OF ne] by blast
  obtain x where x: "GetVWAP (?s2 (trade_price msg) (trade_size msg) (event_time msg)) = Inr x"
    using GetVWAP_Inr by blast
  obtain d where d: "CalculateDeviation (CalculateMidPrice (instrument msg)) x = Inr d"
    using CalculateDeviation_Inr by blast
  have "\<exists>r. OnTrade msg h s = Inr r"
    by (simp add: OnTrade_def Let_def seconds_add b x d)
  moreover have "\<exists>ready. IsVWAPReady (?s2 p v t) = Inr ready"
    using ready_Inr [OF ne] .
  ultimately show ?thesis
    using add_then_prune_nonempty [OF assms, of t p v] by (simp add: Let_def)
qed

theorem just_added_trade_survives_witness:
  "0 \<le> sint (vwap_window_seconds VWAPStrategy_new) \<and>
   (\<exists>r. OnTrade
          \<lparr>trade_price = 100, trade_size = 10, event_time = 5000000,
           instrument =
             \<lparr>symbol = ''SPY'', instrument_type = INSTRUMENT_TYPE_EQUITY,
              top_quote = \<lparr>bid = 99, ask = 101, quote_IsValid = True,
                           bid_side_IsValid = True, ask_side_IsValid = True\<rparr>\<rparr>\<rparr>
          \<lparr>position = 0, working_orders = []\<rparr> VWAPStrategy_new = Inr r)"
proof -
  have h: "0 \<le> sint (vwap_window_seconds VWAPStrategy_new)"
    by (simp add: VWAPStrategy_new_def)
  show ?thesis
    using h just_added_trade_survives [OF h] by simp
qed

text \<open>With a negative \<open>vwap_window_seconds\<close> the cutoff lies after the event time: the
  first trade event of a fresh strategy adds its record, prunes it again and reads the back
  of the empty deque.\<close>

lemma OnTrade_negative_window_faults:
  "OnTrade msg h (VWAPStrategy_new\<lparr>vwap_window_seconds := - 1\<rparr>) = Inl EmptyDequeAccess"
proof -
  let ?s = "VWAPStrategy_new\<lparr>vwap_window_seconds := - 1\<rparr>"
  let ?s1 = "AddTradeToWindow (trade_price msg) (trade_size msg) (event_time msg) ?s"
  let ?c = "event_time msg - seconds (vwap_window_seconds ?s1)"
  have c: "?c = event_time msg + 1000000"
    by (simp add: AddTradeToWindow_def seconds_def ticks_per_second_def)
  have "vwap_window (PruneOldTrades ?c ?s1) = []"
    unfolding c
    by (subst PruneOldTrades.simps, simp add: AddTradeToWindow_def VWAPStrategy_new_def,
        subst PruneOldTrades.simps, simp)
  then have "IsVWAPReady (PruneOldTrades ?c ?s1) = Inl EmptyDequeAccess"
    by (simp add: IsVWAPReady_def MIN_TRADE_REQUIRED_def deque_back_def)
  then show ?thesis
    by (simp add: OnTrade_def Let_def)
qed

section \<open>Proofs: the position decision\<close>

text \<open>
  C1. At the inventory cap, with a long position of 5 and a deviation of -10 bps, no exit
  rule fires and no entry is allowed; the desired position the code computes is 0, the
  initial value of \<^verbatim>\<open>desired_position\<close>, and not the current position 5.
\<close>

theorem hold_at_cap_goes_flat:
  "DesiredPosition (s\<lparr>max_inventory := 5\<rparr>) 5 (- 10) = 0 \<and>
   DesiredPosition (s\<lparr>max_inventory := 5\<rparr>) 5 (- 10) \<noteq> 5"
  by (simp add: DesiredPosition_def abs_int_def)

text \<open>The same happens below the cap when the deviation is inside the entry band, and
  \<open>AdjustPortfolio\<close> then asks \<open>SendOrder\<close> to sell the whole position.\<close>

lemma hold_in_band_goes_flat:
  "DesiredPosition (s\<lparr>max_inventory := 5, entry_threshold_bps := 2\<rparr>) 2 (- 1) = 0"
  by (simp add: DesiredPosition_def abs_int_def)

lemma hold_cases_go_flat:
  "\<not> (0 < sint cur \<and> 0 \<le> dev) \<Longrightarrow> \<not> (sint cur < 0 \<and> dev \<le> 0) \<Longrightarrow>
   \<not> sint (abs_int cur) < sint (max_inventory s) \<or>
     (- entry_threshold_bps s \<le> dev \<and> dev \<le> entry_threshold_bps s) \<Longrightarrow>
   DesiredPosition s cur dev = 0"
  by (auto simp add: DesiredPosition_def)

lemma flatten_order_at_cap:
  "AdjustPortfolio \<lparr>position = 5, working_orders = []\<rparr> instr
     (DesiredPosition (s\<lparr>max_inventory := 5\<rparr>) 5 (- 10)) = SendOrder instr (- 5)"
  by (simp add: DesiredPosition_def abs_int_def AdjustPortfolio_def num_working_orders_def)

text \<open>
  C5. Exit comparisons are not strict, entry comparisons are: a long position of 2 and a
  short position of 2 both exit at a deviation of exactly 0; from a flat position, with
  threshold 2.0, cap 5 and order size 1, a deviation of -3.0 gives +1, of +3.0 gives -1,
  of 0.0 gives 0, and a deviation of exactly +2.0 or -2.0 enters nothing.
\<close>

theorem decision_thresholds:
  "DesiredPosition s 2 0 = 0 \<and>
   DesiredPosition s (- 2) 0 = 0 \<and>
   (let c = s\<lparr>entry_threshold_bps := 2, max_inventory := 5, position_size := 1\<rparr>
    in DesiredPosition c 0 (- 3) = 1 \<and>
       DesiredPosition c 0 3 = - 1 \<and>
       DesiredPosition c 0 0 = 0 \<and>
       DesiredPosition c 0 2 = 0 \<and>
       DesiredPosition c 0 (- 2) = 0)"
  by (simp add: DesiredPosition_def abs_int_def)

section \<open>Proofs: order sizing and adjustment\<close>

text \<open>A trade size of 1, no working order, and a quote without a valid ask side: no order
  is sent.\<close>

theorem new_order_needs_two_sided_quote:
  "(1 :: c_int) - position \<lparr>position = 0, working_orders = []\<rparr> \<noteq> 0 \<and>
   num_working_orders \<lparr>position = 0, working_orders = []\<rparr> = 0 \<and>
   AdjustPortfolio \<lparr>position = 0, working_orders = []\<rparr>
     \<lparr>symbol = ''SPY'', instrument_type = INSTRUMENT_TYPE_EQUITY,
      top_quote = \<lparr>bid = 99, ask = 0, quote_IsValid = False,
                   bid_side_IsValid = True, ask_side_IsValid = False\<rparr>\<rparr> 1 = []"
  by (simp add: AdjustPortfolio_def num_working_orders_def SendOrder_def)

text \<open>
  C6, amended. With \<open>trade_size = desired_position - current_position\<close>:
  if it is 0, a cancel-all for the instrument is requested when a working order exists and
  nothing is done otherwise; if it is not 0 and no working order exists, exactly one market
  order (time in force: day) is sent when both sides of the top quote are valid, for
  \<open>abs(trade_size)\<close>, buying at the ask when the trade size is positive and selling at the
  bid when it is negative, and nothing is sent when a side of the quote is not valid; if it
  is not 0 and working orders exist, the first of them is cancelled when its side conflicts
  with the sign of the trade size and nothing is done when it matches. At most one action
  is issued.
\<close>

theorem adjust_portfolio_actions:
  "(desired - position h = 0 \<and> working_orders h \<noteq> [] \<longrightarrow>
      AdjustPortfolio h instr desired = [SendCancelAll instr]) \<and>
   (desired - position h = 0 \<and> working_orders h = [] \<longrightarrow>
      AdjustPortfolio h instr desired = []) \<and>
   (desired - position h \<noteq> 0 \<and> working_orders h = [] \<and>
    ask_side_IsValid (top_quote instr) \<and> bid_side_IsValid (top_quote instr) \<longrightarrow>
      AdjustPortfolio h instr desired =
        [SendNewOrder
           \<lparr>params_instrument = instr,
            params_quantity = abs_int (desired - position h),
            params_price = (if 0 < sint (desired - position h) then ask (top_quote instr)
                            else bid (top_quote instr)),
            params_market_center =
              (if instrument_type instr = INSTRUMENT_TYPE_EQUITY
               then MARKET_CENTER_ID_NASDAQ else MARKET_CENTER_ID_CME_GLOBEX),
            params_side = (if 0 < sint (desired - position h) then ORDER_SIDE_BUY
                           else ORDER_SIDE_SELL),
            params_tif = ORDER_TIF_DAY,
            params_type = ORDER_TYPE_MARKET\<rparr>]) \<and>
   (desired - position h \<noteq> 0 \<and> working_orders h = [] \<and>
    \<not> (ask_side_IsValid (top_quote instr) \<and> bid_side_IsValid (top_quote instr)) \<longrightarrow>
      AdjustPortfolio h instr desired = []) \<and>
   (desired - position h \<noteq> 0 \<and> working_orders h = Some ord # rest \<and>
    (order_side ord = ORDER_SIDE_BUY \<and> sint (desired - position h) < 0 \<or>
     order_side ord = ORDER_SIDE_SELL \<and> 0 < sint (desired - position h)) \<longrightarrow>
      AdjustPortfolio h instr desired = [SendCancelOrder (order_id ord)]) \<and>
   (desired - position h \<noteq> 0 \<and> working_orders h = Some ord # rest \<and>
    (order_side ord = ORDER_SIDE_BUY \<and> 0 < sint (desired - position h) \<or>
     order_side ord = ORDER_SIDE_SELL \<and> sint (desired - position h) < 0) \<longrightarrow>
      AdjustPortfolio h instr desired = []) \<and>
   length (AdjustPortfolio h instr desired) \<le> 1"
  by (auto simp add: AdjustPortfolio_def num_working_orders_def SendOrder_def Let_def
      IsBuySide_def IsSellSide_def split: option.splits)

text \<open>Position reached with a buy still working; a long position of 2 to be sold; a
  working buy against a trade size of -1; a working buy with a trade size of +1.\<close>

theorem adjust_portfolio_actions_witness:
  "AdjustPortfolio \<lparr>position = 3, working_orders = [Some \<lparr>order_id = 7, order_side = ORDER_SIDE_BUY\<rparr>]\<rparr>
     \<lparr>symbol = ''SPY'', instrument_type = INSTRUMENT_TYPE_EQUITY,
      top_quote = \<lparr>bid = 99, ask = 101, quote_IsValid = True,
                   bid_side_IsValid = True, ask_side_IsValid = True\<rparr>\<rparr> 3
     = [SendCancelAll
          \<lparr>symbol = ''SPY'', instrument_type = INSTRUMENT_TYPE_EQUITY,
      top_quote = \<lparr>bid = 99, ask = 101, quote_IsValid = True,
                   bid_side_IsValid = True, ask_side_IsValid = True\<rparr>\<rparr>] \<and>
   AdjustPortfolio \<lparr>position = 2, working_orders = []\<rparr>
     \<lparr>symbol = ''SPY'', instrument_type = INSTRUMENT_TYPE_EQUITY,
      top_quote = \<lparr>bid = 99, ask = 101, quote_IsValid = True,
                   bid_side_IsValid = True, ask_side_IsValid = True\<rparr>\<rparr> 0
     = [SendNewOrder
          \<lparr>params_instrument =
             \<lparr>symbol = ''SPY'', instrument_type = INSTRUMENT_TYPE_EQUITY,
      top_quote = \<lparr>bid = 99, ask = 101, quote_IsValid = True,
                   bid_side_IsValid = True, ask_side_IsValid = True\<rparr>\<rparr>,
           params_quantity = 2, params_price = 99,
           params_market_center = MARKET_CENTER_ID_NASDAQ,
           params_side = ORDER_SIDE_SELL, params_tif = ORDER_TIF_DAY,
           params_type = ORDER_TYPE_MARKET\<rparr>] \<and>
   AdjustPortfolio \<lparr>position = 0, working_orders = [Some \<lparr>order_id = 7, order_side = ORDER_SIDE_BUY\<rparr>]\<rparr>
     \<lparr>symbol = ''SPY'', instrument_type = INSTRUMENT_TYPE_EQUITY,
      top_quote = \<lparr>bid = 99, ask = 101, quote_IsValid = True,
                   bid_side_IsValid = True, ask_side_IsValid = True\<rparr>\<rparr> (- 1)
     = [SendCancelOrder 7] \<and>
   AdjustPortfolio \<lparr>position = 0, working_orders = [Some \<lparr>order_id = 7, order_side = ORDER_SIDE_BUY\<rparr>]\<rparr>
     \<lparr>symbol = ''SPY'', instrument_type = INSTRUMENT_TYPE_EQUITY,
      top_quote = \<lparr>bid = 99, ask = 101, quote_IsValid = True,
                   bid_side_IsValid = True, ask_side_IsValid = True\<rparr>\<rparr> 1
     = []"
  using
    adjust_portfolio_actions [of 3 "\<lparr>position = 3, working_orders = [Some \<lparr>order_id = 7, order_side = ORDER_SIDE_BUY\<rparr>]\<rparr>"
      "\<lparr>symbol = ''SPY'', instrument_type = INSTRUMENT_TYPE_EQUITY,
      top_quote = \<lparr>bid = 99, ask = 101, quote_IsValid = True,
                   bid_side_IsValid = True, ask_side_IsValid = True\<rparr>\<rparr>"]
    adjust_portfolio_actions [of 0 "\<lparr>position = 2, working_orders = []\<rparr>"
      "\<lparr>symbol = ''SPY'', instrument_type = INSTRUMENT_TYPE_EQUITY,
      top_quote = \<lparr>bid = 99, ask = 101, quote_IsValid = True,
                   bid_side_IsValid = True, ask_side_IsValid = True\<rparr>\<rparr>"]
    adjust_portfolio_actions [of "- 1" "\<lparr>position = 0, working_orders = [Some \<lparr>order_id = 7, order_side = ORDER_SIDE_BUY\<rparr>]\<rparr>"
      "\<lparr>symbol = ''SPY'', instrument_type = INSTRUMENT_TYPE_EQUITY,
      top_quote = \<lparr>bid = 99, ask = 101, quote_IsValid = True,
                   bid_side_IsValid = True, ask_side_IsValid = True\<rparr>\<rparr>"
      "\<lparr>order_id = 7, order_side = ORDER_SIDE_BUY\<rparr>" "[]"]
    adjust_portfolio_actions [of 1 "\<lparr>position = 0, working_orders = [Some \<lparr>order_id = 7, order_side = ORDER_SIDE_BUY\<rparr>]\<rparr>"
      "\<lparr>symbol = ''SPY'', instrument_type = INSTRUMENT_TYPE_EQUITY,
      top_quote = \<lparr>bid = 99, ask = 101, quote_IsValid = True,
                   bid_side_IsValid = True, ask_side_IsValid = True\<rparr>\<rparr>"
      "\<lparr>order_id = 7, order_side = ORDER_SIDE_BUY\<rparr>" "[]"]
  by (simp add: abs_int_def)

section \<open>Proofs: parameter updates\<close>

text \<open>
  C9. For each of the five parameter names, \<open>OnParamChanged\<close> throws exactly when
  \<^verbatim>\<open>Get\<close> fails for the type of the field; then every data member is as it was;
  when \<^verbatim>\<open>Get\<close> succeeds the field of that name holds the new value and every other
  data member is as it was.
\<close>

theorem param_update:
  "(param_name p = ''vwap_window_seconds'' \<longrightarrow>
      (fst (OnParamChanged p s) \<noteq> None \<longleftrightarrow> Get_int p = None) \<and>
      (Get_int p = None \<longrightarrow> snd (OnParamChanged p s) = s) \<and>
      (Get_int p = Some vi \<longrightarrow> snd (OnParamChanged p s) = s\<lparr>vwap_window_seconds := vi\<rparr>)) \<and>
   (param_name p = ''entry_threshold_bps'' \<longrightarrow>
      (fst (OnParamChanged p s) \<noteq> None \<longleftrightarrow> Get_double p = None) \<and>
      (Get_double p = None \<longrightarrow> snd (OnParamChanged p s) = s) \<and>
      (Get_double p = Some vd \<longrightarrow> snd (OnParamChanged p s) = s\<lparr>entry_threshold_bps := vd\<rparr>)) \<and>
   (param_name p = ''max_inventory'' \<longrightarrow>
      (fst (OnParamChanged p s) \<noteq> None \<longleftrightarrow> Get_int p = None) \<and>
      (Get_int p = None \<longrightarrow> snd (OnParamChanged p s) = s) \<and>
      (Get_int p = Some vi \<longrightarrow> snd (OnParamChanged p s) = s\<lparr>max_inventory := vi\<rparr>)) \<and>
   (param_name p = ''position_size'' \<longrightarrow>
      (fst (OnParamChanged p s) \<noteq> None \<longleftrightarrow> Get_int p = None) \<and>
      (Get_int p = None \<longrightarrow> snd (OnParamChanged p s) = s) \<and>
      (Get_int p = Some vi \<longrightarrow> snd (OnParamChanged p s) = s\<lparr>position_size := vi\<rparr>)) \<and>
   (param_name p = ''debug'' \<longrightarrow>
      (fst (OnParamChanged p s) \<noteq> None \<longleftrightarrow> Get_bool p = None) \<and>
      (Get_bool p = None \<longrightarrow> snd (OnParamChanged p s) = s) \<and>
      (Get_bool p = Some vb \<longrightarrow> snd (OnParamChanged p s) = s\<lparr>debug := vb\<rparr>))"
  by (auto simp add: OnParamChanged_def split: option.splits)

text \<open>An integer for the window, a value that is no number for the threshold, an integer
  for the cap, a value that is no integer for the order size, a flag for debug.\<close>

theorem param_update_witness:
  "fst (OnParamChanged
     \<lparr>param_name = ''vwap_window_seconds'', Get_int = Some 60, Get_double = Some 60,
      Get_bool = None\<rparr> VWAPStrategy_new) = None \<and>
   snd (OnParamChanged
     \<lparr>param_name = ''vwap_window_seconds'', Get_int = Some 60, Get_double = Some 60,
      Get_bool = None\<rparr> VWAPStrategy_new) = VWAPStrategy_new\<lparr>vwap_window_seconds := 60\<rparr> \<and>
   fst (OnParamChanged
     \<lparr>param_name = ''entry_threshold_bps'', Get_int = None, Get_double = None,
      Get_bool = Some True\<rparr> VWAPStrategy_new) \<noteq> None \<and>
   snd (OnParamChanged
     \<lparr>param_name = ''entry_threshold_bps'', Get_int = None, Get_double = None,
      Get_bool = Some True\<rparr> VWAPStrategy_new) = VWAPStrategy_new \<and>
   fst (OnParamChanged
     \<lparr>param_name = ''max_inventory'', Get_int = Some 10, Get_double = Some 10,
      Get_bool = None\<rparr> VWAPStrategy_new) = None \<and>
   snd (OnParamChanged
     \<lparr>param_name = ''max_inventory'', Get_int = Some 10, Get_double = Some 10,
      Get_bool = None\<rparr> VWAPStrategy_new) = VWAPStrategy_new\<lparr>max_inventory := 10\<rparr> \<and>
   fst (OnParamChanged
     \<lparr>param_name = ''position_size'', Get_int = None, Get_double = Some (5 / 2),
      Get_bool = None\<rparr> VWAPStrategy_new) \<noteq> None \<and>
   snd (OnParamChanged
     \<lparr>param_name = ''position_size'', Get_int = None, Get_double = Some (5 / 2),
      Get_bool = None\<rparr> VWAPStrategy_new) = VWAPStrategy_new \<and>
   fst (OnParamChanged
     \<lparr>param_name = ''debug'', Get_int = None, Get_double = None,
      Get_bool = Some False\<rparr> VWAPStrategy_new) = None \<and>
   snd (OnParamChanged
     \<lparr>param_name = ''debug'', Get_int = None, Get_double = None,
      Get_bool = Some False\<rparr> VWAPStrategy_new) = VWAPStrategy_new\<lparr>debug := False\<rparr>"
  using
    param_update [of "\<lparr>param_name = ''vwap_window_seconds'', Get_int = Some 60, Get_double = Some 60,
      Get_bool = None\<rparr>" VWAPStrategy_new 60]
    param_update [of "\<lparr>param_name = ''entry_threshold_bps'', Get_int = None, Get_double = None,
      Get_bool = Some True\<rparr>" VWAPStrategy_new]
    param_update [of "\<lparr>param_name = ''max_inventory'', Get_int = Some 10, Get_double = Some 10,
      Get_bool = None\<rparr>" VWAPStrategy_new 10]
    param_update [of "\<lparr>param_name = ''position_size'', Get_int = None, Get_double = Some (5 / 2),
      Get_bool = None\<rparr>" VWAPStrategy_new]
    param_update [of "\<lparr>param_name = ''debug'', Get_int = None, Get_double = None,
      Get_bool = Some False\<rparr>" VWAPStrategy_new _ _ False]
  by simp

end
